theory Spec2Isabelle
  imports Main
begin

section \<open>The unisign example program \<open>hello.c\<close>\<close>

text \<open>
  The repository's only source file, \<open>src/pkg/placeholder/example/hello.c\<close>, declares one
  constant character array, \<open>magic_comment\<close>, tagged with a section attribute chosen by the
  preprocessor, and a \<open>main\<close> that prints a fixed line and returns 0. The embedding has
  three parts: the translation unit as the preprocessor and the compiler see it (which
  attribute is chosen, which bytes the array holds), the run of \<open>main\<close> as a function on
  the state of the process, and the same run as a machine that executes one statement per
  step.
\<close>

subsection \<open>Bytes, string literals and C strings\<close>

text \<open>
  A C \<open>char\<close> is one byte; Isabelle's \<open>char\<close> is one byte as well. An array of unknown
  bound initialised by a string literal holds the characters of the literal followed by
  one terminating null character, and its size is that count.
\<close>

type_synonym byte = char

definition NUL :: byte where
  "NUL = CHR 0x00"

definition string_literal :: "string \<Rightarrow> byte list" where
  "string_literal s = s @ [NUL]"

text \<open>The string a byte array holds, as C reads it: the bytes before the first null.\<close>

definition c_string :: "byte list \<Rightarrow> string" where
  "c_string bs = takeWhile (\<lambda>b. b \<noteq> NUL) bs"

subsection \<open>The declaration of \<open>magic_comment\<close> (lines 4 to 12)\<close>

text \<open>
  The preprocessor condition of line 5 reads two predefined macros of the target,
  \<open>__APPLE__\<close> and \<open>__MACH__\<close>; a target is modelled by whether each is defined.
\<close>

record target =
  APPLE_defined :: bool
  MACH_defined :: bool

text \<open>
  Lines 5 to 11: the argument of \<open>__attribute__((section(...)))\<close> that survives
  preprocessing.
\<close>

definition section_attribute :: "target \<Rightarrow> string" where
  "section_attribute t =
     (if APPLE_defined t \<and> MACH_defined t then ''__NOTE,__unisign''
      else ''.note.unisign'')"

text \<open>
  The comment of line 6 says how a Mach-O toolchain reads the attribute: as
  \<open>segment,section\<close>, the segment before the comma and the section after it.
\<close>

definition macho_segment_section :: "string \<Rightarrow> string \<times> string" where
  "macho_segment_section a =
     (takeWhile (\<lambda>c. c \<noteq> CHR '','') a, drop 1 (dropWhile (\<lambda>c. c \<noteq> CHR '','') a))"

text \<open>Line 12: the array and its initialiser.\<close>

definition magic_comment :: "byte list" where
  "magic_comment =
     string_literal
       ''us1-r/GZBm1d749E+KbBLWaEnR5fNz626Deutp0P9F4ICt5EOqGw+DeMQUNHb5TLBt+gol0p82zcb9sMDO+Ai7e2TA==''"

text \<open>
  What the compiler emits for the declaration: an object of the given content, in the
  section the attribute names, read-only because the array is \<open>const\<close>.
\<close>

record emitted_object =
  section_name :: string
  read_only :: bool
  content :: "byte list"

definition magic_comment_decl :: "target \<Rightarrow> emitted_object" where
  "magic_comment_decl t =
     \<lparr>section_name = section_attribute t, read_only = True, content = magic_comment\<rparr>"

subsection \<open>The state of the running process\<close>

text \<open>
  The state a run can touch: the bytes delivered to standard output so far and the
  storage of \<open>magic_comment\<close>. Everything else the process owns or can reach (other
  variables, files, the environment) is the extension of the record, so a statement
  about \<open>'a process_scheme\<close> speaks about all of it.
\<close>

record process =
  stdout :: "byte list"
  magic_comment_mem :: "byte list"

text \<open>A process at the entry of \<open>main\<close>: nothing printed, the array as it was emitted.\<close>

definition startup :: process where
  "startup = \<lparr>stdout = [], magic_comment_mem = magic_comment\<rparr>"

subsection \<open>\<open>printf\<close> and \<open>main\<close> (lines 14 to 17)\<close>

text \<open>
  \<open>printf\<close> belongs to the C library, not to the repository. The C standard gives it two
  outcomes: it returns the number of characters transmitted, or a negative value when an
  output error occurred. Which one happens is decided by the environment (a closed
  descriptor, a full device), so the outcome is a parameter of the run. After an error
  the number of characters that did reach the output is not fixed by the standard:
  \<open>Print_error n\<close> is an error after the first \<open>n\<close> characters were transmitted.
  The format passed at line 15 has no conversion specification, so the characters to
  transmit are the format itself; only that case is modelled. In both outcomes the call
  returns to its caller, and it touches nothing but the output stream; the buffer of the
  stream is not modelled, a byte counts as written once it is transmitted.
\<close>

datatype print_outcome = Print_ok | Print_error nat

definition printf :: "string \<Rightarrow> print_outcome \<Rightarrow> 'a process_scheme \<Rightarrow> int \<times> 'a process_scheme" where
  "printf fmt oc p =
     (case oc of
        Print_ok \<Rightarrow> (int (length fmt), p\<lparr>stdout := stdout p @ fmt\<rparr>)
      | Print_error n \<Rightarrow> (- 1, p\<lparr>stdout := stdout p @ take n fmt\<rparr>))"

text \<open>
  \<open>main\<close> calls \<open>printf\<close>, drops what it returns, and returns 0. The result is the exit
  status and the state of the process.
\<close>

definition main :: "print_outcome \<Rightarrow> 'a process_scheme \<Rightarrow> int \<times> 'a process_scheme" where
  "main oc p = (let (r, p') = printf ''Hello, world!\<newline>'' oc p in (0, p'))"

text \<open>The bytes a run of \<open>main\<close> added to standard output.\<close>

definition written :: "print_outcome \<Rightarrow> 'a process_scheme \<Rightarrow> byte list" where
  "written oc p = drop (length (stdout p)) (stdout (snd (main oc p)))"

subsection \<open>\<open>main\<close> statement by statement\<close>

text \<open>
  The body of \<open>main\<close> has two statements. Control is before the call of line 15, before
  the \<open>return\<close> of line 16, or has left \<open>main\<close> with a status. \<open>step\<close> executes the
  statement control stands at; a process that has left \<open>main\<close> has no step. \<open>run\<close> takes
  steps until control has left \<open>main\<close>, at most as many as its first argument allows,
  and is \<open>None\<close> when that does not suffice.
\<close>

datatype control = At_printf | At_return | Exited int

fun step :: "print_outcome \<Rightarrow> control \<times> 'a process_scheme \<Rightarrow> (control \<times> 'a process_scheme) option" where
  "step oc (At_printf, p) = Some (At_return, snd (printf ''Hello, world!\<newline>'' oc p))"
| "step oc (At_return, p) = Some (Exited 0, p)"
| "step oc (Exited rc, p) = None"

fun run :: "nat \<Rightarrow> print_outcome \<Rightarrow> control \<times> 'a process_scheme \<Rightarrow> (int \<times> 'a process_scheme) option" where
  "run n oc (Exited rc, p) = Some (rc, p)"
| "run 0 oc (c, p) = None"
| "run (Suc n) oc (c, p) =
     (case step oc (c, p) of None \<Rightarrow> None | Some cfg \<Rightarrow> run n oc cfg)"

section \<open>Properties\<close>

subsection \<open>Auxiliary facts\<close>

lemma main_status: "fst (main oc p) = 0"
  by (simp add: main_def split: prod.split)

lemma main_state: "snd (main oc p) = snd (printf ''Hello, world!\<newline>'' oc p)"
  by (simp add: main_def split: prod.split)

lemma printf_stdout:
  "stdout (snd (printf fmt oc p)) =
     stdout p @ (case oc of Print_ok \<Rightarrow> fmt | Print_error n \<Rightarrow> take n fmt)"
  by (simp add: printf_def split: print_outcome.split)

lemma printf_frame:
  "snd (printf fmt oc p) = p\<lparr>stdout := stdout (snd (printf fmt oc p))\<rparr>"
  by (simp add: printf_def split: print_outcome.split)

lemma written_eq:
  "written oc p =
     (case oc of Print_ok \<Rightarrow> ''Hello, world!\<newline>''
      | Print_error n \<Rightarrow> take n ''Hello, world!\<newline>'')"
  by (simp add: written_def main_state printf_stdout)

lemma format_has_no_conversion: "CHR ''%'' \<notin> set ''Hello, world!\<newline>''"
  by simp

subsection \<open>The embedded signature\<close>

text \<open>
  Claim C2. The signature embedded as \<open>magic_comment\<close> is, byte for byte, the literal
  \<open>us1-r/GZBm1d749E+KbBLWaEnR5fNz626Deutp0P9F4ICt5EOqGw+DeMQUNHb5TLBt+gol0p82zcb9sMDO+Ai7e2TA==\<close>:
  the string the array holds is that text, the array is that text followed by the
  terminator of the literal and nothing else, and this is the content emitted into the
  note section for every target.
\<close>

theorem magic_comment_verbatim:
  "c_string magic_comment =
     ''us1-r/GZBm1d749E+KbBLWaEnR5fNz626Deutp0P9F4ICt5EOqGw+DeMQUNHb5TLBt+gol0p82zcb9sMDO+Ai7e2TA==''
   \<and> magic_comment =
     ''us1-r/GZBm1d749E+KbBLWaEnR5fNz626Deutp0P9F4ICt5EOqGw+DeMQUNHb5TLBt+gol0p82zcb9sMDO+Ai7e2TA=='' @ [NUL]
   \<and> content (magic_comment_decl t) = magic_comment"
  by (simp add: c_string_def magic_comment_def string_literal_def NUL_def magic_comment_decl_def)

text \<open>
  Claim C8. The array \<open>magic_comment\<close> is exactly 93 bytes long: the 92 characters of the
  literal and one null byte after them, so the content of the section ends in a zero
  byte.
\<close>

theorem magic_comment_length:
  "length magic_comment = 93
   \<and> length (c_string magic_comment) = 92
   \<and> magic_comment = c_string magic_comment @ [CHR 0x00]
   \<and> last (content (magic_comment_decl t)) = CHR 0x00"
  by (simp add: c_string_def magic_comment_def string_literal_def NUL_def magic_comment_decl_def)

subsection \<open>Where the signature is placed\<close>

text \<open>
  Claim C3. \<open>magic_comment\<close> is tagged for segment \<open>__NOTE\<close>, section \<open>__unisign\<close> when the
  target is Apple/Mach-O (both \<open>__APPLE__\<close> and \<open>__MACH__\<close> defined), and for section
  \<open>.note.unisign\<close> on every other target; on every build exactly one of the two
  attributes applies.
\<close>

theorem section_by_target:
  "(APPLE_defined t \<and> MACH_defined t \<longrightarrow>
      section_name (magic_comment_decl t) = ''__NOTE,__unisign''
      \<and> macho_segment_section (section_name (magic_comment_decl t)) = (''__NOTE'', ''__unisign''))
   \<and> (\<not> (APPLE_defined t \<and> MACH_defined t) \<longrightarrow>
      section_name (magic_comment_decl t) = ''.note.unisign'')
   \<and> ((section_name (magic_comment_decl t) = ''__NOTE,__unisign'')
        \<noteq> (section_name (magic_comment_decl t) = ''.note.unisign''))"
  by (simp add: magic_comment_decl_def section_attribute_def macho_segment_section_def)

text \<open>
  The theorem at three targets: macOS, Linux, and a target that defines \<open>__APPLE__\<close>
  without \<open>__MACH__\<close>.
\<close>

theorem section_by_target_witness:
  "section_name (magic_comment_decl \<lparr>APPLE_defined = True, MACH_defined = True\<rparr>)
     = ''__NOTE,__unisign''
   \<and> macho_segment_section
       (section_name (magic_comment_decl \<lparr>APPLE_defined = True, MACH_defined = True\<rparr>))
     = (''__NOTE'', ''__unisign'')
   \<and> section_name (magic_comment_decl \<lparr>APPLE_defined = False, MACH_defined = False\<rparr>)
     = ''.note.unisign''
   \<and> section_name (magic_comment_decl \<lparr>APPLE_defined = True, MACH_defined = False\<rparr>)
     = ''.note.unisign''"
  using section_by_target [of "\<lparr>APPLE_defined = True, MACH_defined = True\<rparr>"]
    section_by_target [of "\<lparr>APPLE_defined = False, MACH_defined = False\<rparr>"]
    section_by_target [of "\<lparr>APPLE_defined = True, MACH_defined = False\<rparr>"]
  by (simp add: macho_segment_section_def)

text \<open>
  Claim C4. Compiled for a Mach-O target and for an ELF target, the source yields in each
  case the section name of that platform, and the two sections hold identical bytes: the
  content under the Apple branch equals the content under the other branch.
\<close>

theorem content_same_across_targets:
  "APPLE_defined a \<and> MACH_defined a \<Longrightarrow> \<not> (APPLE_defined b \<and> MACH_defined b) \<Longrightarrow>
     section_name (magic_comment_decl a) = ''__NOTE,__unisign''
     \<and> section_name (magic_comment_decl b) = ''.note.unisign''
     \<and> content (magic_comment_decl a) = content (magic_comment_decl b)"
  by (simp add: magic_comment_decl_def section_attribute_def)

theorem content_same_across_targets_witness:
  "section_name (magic_comment_decl \<lparr>APPLE_defined = True, MACH_defined = True\<rparr>)
     = ''__NOTE,__unisign''
   \<and> section_name (magic_comment_decl \<lparr>APPLE_defined = False, MACH_defined = False\<rparr>)
     = ''.note.unisign''
   \<and> content (magic_comment_decl \<lparr>APPLE_defined = True, MACH_defined = True\<rparr>)
     = content (magic_comment_decl \<lparr>APPLE_defined = False, MACH_defined = False\<rparr>)"
  using content_same_across_targets
    [of "\<lparr>APPLE_defined = True, MACH_defined = True\<rparr>"
        "\<lparr>APPLE_defined = False, MACH_defined = False\<rparr>"]
  by simp

subsection \<open>What a run prints and returns\<close>

text \<open>
  Claim C1, as amended. The claim as written (every execution writes exactly
  \<open>Hello, world!\<close> and a newline) fails for an execution in which the print fails. What
  holds: every execution ends with exit status 0, and every execution in which the
  print succeeds writes exactly the bytes \<open>Hello, world!\<close> followed by one newline to
  standard output, after whatever was there before.
\<close>

theorem hello_world_output:
  "fst (main oc p) = 0
   \<and> written Print_ok p = ''Hello, world!'' @ [CHR 0x0A]
   \<and> stdout (snd (main Print_ok p)) = stdout p @ ''Hello, world!'' @ [CHR 0x0A]"
  by (simp add: main_status written_eq main_state printf_stdout)

text \<open>
  The claim C1 as written, at a run whose print fails before any byte is transmitted:
  the process started with nothing on standard output ends with nothing there.
\<close>

theorem hello_world_output_counterexample:
  "\<not> (stdout (snd (main (Print_error 0) startup)) = ''Hello, world!'' @ [CHR 0x0A]
      \<and> fst (main (Print_error 0) startup) = 0)"
  by (simp add: main_state printf_stdout startup_def)

text \<open>
  Claim C5. \<open>main\<close> returns status 0 unconditionally: every execution has exit status 0,
  also the one in which the print fails and \<open>printf\<close> reports it with a negative value;
  the status does not depend on what \<open>printf\<close> returned.
\<close>

theorem exit_status_unconditional:
  "fst (main oc p) = 0
   \<and> fst (printf ''Hello, world!\<newline>'' (Print_error n) p) < 0
   \<and> fst (main (Print_error n) p) = 0"
  by (simp add: main_status printf_def)

text \<open>
  Claim C9, as amended. The claim as written (any two executions write identical bytes)
  fails for two executions of which one print succeeds and the other fails. What holds:
  any two executions have the same exit status, and any two executions in which the
  print has the same outcome write identical bytes, whatever state each started from.
\<close>

theorem main_deterministic:
  "fst (main oc1 p) = fst (main oc2 q) \<and> written oc p = written oc q"
  by (simp add: main_status written_eq)

text \<open>
  The claim C9 as written, at two runs from the same state: one print succeeds, the other
  fails before any byte is transmitted.
\<close>

theorem main_deterministic_counterexample:
  "\<not> (written Print_ok startup = written (Print_error 0) startup
      \<and> fst (main Print_ok startup) = fst (main (Print_error 0) startup))"
  by (simp add: written_eq)

subsection \<open>What a run leaves alone\<close>

text \<open>
  Claim C6. The signature is immutable at run time: after \<open>main\<close> returns, the content of
  \<open>magic_comment\<close> is what it was before, which for a started process is its compile-time
  value, and no statement of the program changes it.
\<close>

theorem magic_comment_immutable:
  "magic_comment_mem (snd (main oc p)) = magic_comment_mem p
   \<and> magic_comment_mem (snd (main oc startup)) = magic_comment
   \<and> (step oc (c, p) = Some (c', p') \<longrightarrow> magic_comment_mem p' = magic_comment_mem p)"
proof -
  have call: "magic_comment_mem (snd (printf fmt oc r)) = magic_comment_mem r"
    for fmt and r :: "'b process_scheme"
    by (simp add: printf_def split: print_outcome.split)
  have "magic_comment_mem p' = magic_comment_mem p" if "step oc (c, p) = Some (c', p')"
    using that by (cases c) (auto simp: call)
  then show ?thesis
    by (simp add: main_state call startup_def)
qed

theorem magic_comment_immutable_witness:
  "step Print_ok (At_printf, startup)
     = Some (At_return, snd (printf ''Hello, world!\<newline>'' Print_ok startup))
   \<and> magic_comment_mem (snd (printf ''Hello, world!\<newline>'' Print_ok startup)) = magic_comment"
  using magic_comment_immutable
    [where oc = Print_ok and p = startup and c = At_printf and c' = At_return
       and p' = "snd (printf ''Hello, world!\<newline>'' Print_ok startup)"]
  by (simp add: startup_def)

text \<open>
  Claim C7. The program takes no input and has no effect other than the single write to
  the console: the exit status and the bytes written do not depend on the state the
  process started from, the state after \<open>main\<close> is the state after its one call of
  \<open>printf\<close>, and it differs from the state before only in the bytes appended to standard
  output; every other part of the state is unchanged.
\<close>

theorem main_frame:
  "snd (main oc p) = p\<lparr>stdout := stdout p @ written oc p\<rparr>
   \<and> snd (main oc p) = snd (printf ''Hello, world!\<newline>'' oc p)
   \<and> fst (main oc p) = fst (main oc q)
   \<and> written oc p = written oc q"
proof -
  have "snd (main oc p) = p\<lparr>stdout := stdout (snd (main oc p))\<rparr>"
    using printf_frame [of "''Hello, world!\<newline>''" oc p] by (simp add: main_state)
  moreover have "stdout (snd (main oc p)) = stdout p @ written oc p"
    by (simp add: main_state printf_stdout written_eq)
  ultimately show ?thesis
    by (simp add: main_state main_status written_eq)
qed

subsection \<open>Termination\<close>

text \<open>
  Claim C10. The program always terminates: for every outcome of the print and every
  state, the first step brings control to the \<open>return\<close> statement, the second leaves
  \<open>main\<close>, and a run allowed two steps or more returns the result of \<open>main\<close>; there is
  no third step.
\<close>

theorem main_terminates:
  "run (Suc (Suc n)) oc (At_printf, p) = Some (main oc p)
   \<and> (\<exists>p'. step oc (At_printf, p) = Some (At_return, p')
          \<and> step oc (At_return, p') = Some (Exited 0, p')
          \<and> step oc (Exited 0, p') = None)"
proof -
  have "main oc p = (0, snd (printf ''Hello, world!\<newline>'' oc p))"
    using main_status [of oc p] main_state [of oc p] by (simp add: prod_eq_iff)
  then show ?thesis by simp
qed

end
